theory Spec2Isabelle
  imports Complex_Main "HOL-Library.AList"
begin

section \<open>The contact view (home/views.py)\<close>

text \<open>
  A request carries its method and the submitted form. Django's form data is a
  multi-valued dictionary: every key holds the list of the values submitted under it,
  and \<open>get\<close> returns the last one, or the default when the key is missing or its list
  is empty.
\<close>

record request =
  "method" :: string
  POST :: "string \<Rightarrow> string list option"

definition querydict_get :: "(string \<Rightarrow> string list option) \<Rightarrow> string \<Rightarrow> string \<Rightarrow> string" where
  "querydict_get q key dflt =
     (case q key of
        None \<Rightarrow> dflt
      | Some vs \<Rightarrow> (if vs = [] then dflt else last vs))"

text \<open>
  Modelled from the spec: the model class \<open>Contact\<close> of home/models.py is not among the
  sources. The spec's data model gives it four text fields, created on submission, with
  no uniqueness or validation invariant, so the table is the list of the rows created so
  far and \<open>objects_create\<close> appends one row.
\<close>

record Contact =
  name :: string
  email :: string
  subject :: string
  message :: string

type_synonym contact_table = "Contact list"

definition objects_create :: "string \<Rightarrow> string \<Rightarrow> string \<Rightarrow> string \<Rightarrow> contact_table \<Rightarrow> contact_table" where
  "objects_create n e s m db = db @ [\<lparr>name = n, email = e, subject = s, message = m\<rparr>]"

datatype response = Rendered string

definition render :: "request \<Rightarrow> string \<Rightarrow> response" where
  "render req template = Rendered template"

definition contact :: "request \<Rightarrow> contact_table \<Rightarrow> response \<times> contact_table" where
  "contact req db =
     (let db' =
        (if method req = ''POST'' then
           (let n = querydict_get (POST req) ''name'' '''';
                e = querydict_get (POST req) ''email'' '''';
                s = querydict_get (POST req) ''subject'' '''';
                m = querydict_get (POST req) ''message'' ''''
            in objects_create n e s m db)
         else db)
      in (render req ''home.html'', db'))"

section \<open>Strings and paths\<close>

text \<open>
  File names are strings. A path is the list of its components below the working
  directory, so that \<open>os.path.join dir name\<close> appends one component; the empty list
  is the working directory itself.
\<close>

type_synonym path = "string list"

definition path_join :: "path \<Rightarrow> string \<Rightarrow> path" where
  "path_join d n = d @ [n]"

fun path_string :: "path \<Rightarrow> string" where
  "path_string [] = ''.''"
| "path_string [c] = c"
| "path_string (c # cs) = c @ ''/'' @ path_string cs"

definition lower_char :: "char \<Rightarrow> char" where
  "lower_char c =
     (case map_of (zip ''ABCDEFGHIJKLMNOPQRSTUVWXYZ'' ''abcdefghijklmnopqrstuvwxyz'') c of
        None \<Rightarrow> c
      | Some l \<Rightarrow> l)"

definition lower :: "string \<Rightarrow> string" where
  "lower s = map lower_char s"

definition endswith :: "string \<Rightarrow> string \<Rightarrow> bool" where
  "endswith s suf = (length suf \<le> length s \<and> drop (length s - length suf) s = suf)"

text \<open>
  \<open>os.path.splitext\<close> on a file name (no separator in it): the extension starts at the
  last dot, unless only dots come before that dot; then there is no extension.
\<close>

definition splitext :: "string \<Rightarrow> string \<times> string" where
  "splitext p =
     (let after = rev (takeWhile (\<lambda>c. c \<noteq> CHR ''.'') (rev p));
          dotIndex = length p - length after - 1
      in if CHR ''.'' \<in> set p \<and> (\<exists>c \<in> set (take dotIndex p). c \<noteq> CHR ''.'')
         then (take dotIndex p, drop dotIndex p)
         else (p, []))"

section \<open>Images and the file system\<close>

text \<open>
  The exceptions that the script can meet, all of them subclasses of \<open>Exception\<close>. The
  ones that the standard library catches as \<open>OSError\<close> are marked.
\<close>

datatype error =
    FileNotFoundError | NotADirectoryError | IsADirectoryError | FileExistsError
  | PermissionError | SameFileError | UnidentifiedImageError | DecompressionBombError
  | ZeroDivisionError | ValueError | OSError | MemoryError | UnicodeEncodeError

definition is_OSError :: "error \<Rightarrow> bool" where
  "is_OSError e =
     (e \<in> set [FileNotFoundError, NotADirectoryError, IsADirectoryError, FileExistsError,
                PermissionError, SameFileError, UnidentifiedImageError, OSError])"

text \<open>
  A picture is kept as the way it was made: pixels that came from outside, given by
  size and colour mode, and what the operations of the imaging library make of a
  picture. So two pictures are equal only if they were made in the same way, and the
  size and the mode of a picture are computed from it. A truncated picture is one whose
  file breaks off in the pixel data: its header gives size and mode, and loading the
  pixels fails. An encoded picture is what a decoder reads back from the file that the
  encoder of a format wrote.
\<close>

datatype format = JPEG | PNG

datatype picture =
    Pixels nat nat string
  | Truncated picture
  | Encoded format picture
  | Converted string picture
  | Scaled "nat \<times> nat" picture
  | Cropped "int \<times> int \<times> int \<times> int" picture
  | Blank string "nat \<times> nat"
  | Pasted picture picture "int \<times> int"

text \<open>
  The JPEG encoder writes a bilevel picture as 8-bit grey and drops the padding byte
  of RGBX; a JPEG file of three components is read back as RGB. The PNG encoder writes
  32-bit integer pixels as 16-bit grey.
\<close>

definition stored_mode :: "format \<Rightarrow> string \<Rightarrow> string" where
  "stored_mode fmt m =
     (case fmt of
        JPEG \<Rightarrow> (if m = ''1'' then ''L'' else if m = ''RGBX'' \<or> m = ''YCbCr'' then ''RGB'' else m)
      | PNG \<Rightarrow> (if m = ''I'' then ''I;16'' else m))"

fun width :: "picture \<Rightarrow> nat" where
  "width (Pixels w h m) = w"
| "width (Truncated p) = width p"
| "width (Encoded fmt p) = width p"
| "width (Converted m p) = width p"
| "width (Scaled sz p) = fst sz"
| "width (Cropped box p) = (case box of (x0, y0, x1, y1) \<Rightarrow> nat (x1 - x0))"
| "width (Blank m sz) = fst sz"
| "width (Pasted canvas p offset) = width canvas"

fun height :: "picture \<Rightarrow> nat" where
  "height (Pixels w h m) = h"
| "height (Truncated p) = height p"
| "height (Encoded fmt p) = height p"
| "height (Converted m p) = height p"
| "height (Scaled sz p) = snd sz"
| "height (Cropped box p) = (case box of (x0, y0, x1, y1) \<Rightarrow> nat (y1 - y0))"
| "height (Blank m sz) = snd sz"
| "height (Pasted canvas p offset) = height canvas"

fun mode :: "picture \<Rightarrow> string" where
  "mode (Pixels w h m) = m"
| "mode (Truncated p) = mode p"
| "mode (Encoded fmt p) = stored_mode fmt (mode p)"
| "mode (Converted m p) = m"
| "mode (Scaled sz p) = mode p"
| "mode (Cropped box p) = mode p"
| "mode (Blank m sz) = m"
| "mode (Pasted canvas p offset) = mode canvas"

fun loads :: "picture \<Rightarrow> bool" where
  "loads (Truncated p) = False"
| "loads (Pixels w h m) = True"
| "loads (Encoded fmt p) = True"
| "loads (Converted m p) = True"
| "loads (Scaled sz p) = True"
| "loads (Cropped box p) = True"
| "loads (Blank m sz) = True"
| "loads (Pasted canvas p offset) = True"

text \<open>
  A regular file holds the bytes of an image, or bytes that no decoder of the imaging
  library identifies.
\<close>

datatype content = ImageFile picture | Garbage

datatype node = File content | Dir

type_synonym filesystem = "(path \<times> node) list"

definition fs_lookup :: "filesystem \<Rightarrow> path \<Rightarrow> node option" where
  "fs_lookup fs p = (if p = [] then Some Dir else map_of fs p)"

definition fs_put :: "path \<Rightarrow> node \<Rightarrow> filesystem \<Rightarrow> filesystem" where
  "fs_put p n fs = AList.update p n fs"

definition path_exists :: "filesystem \<Rightarrow> path \<Rightarrow> bool" where
  "path_exists fs p = (fs_lookup fs p \<noteq> None)"

definition isfile :: "filesystem \<Rightarrow> path \<Rightarrow> bool" where
  "isfile fs p = (case fs_lookup fs p of Some (File c) \<Rightarrow> True | _ \<Rightarrow> False)"

definition isdir :: "filesystem \<Rightarrow> path \<Rightarrow> bool" where
  "isdir fs p = (fs_lookup fs p = Some Dir)"

section \<open>The environment\<close>

text \<open>
  The lines that the script prints are kept by kind, with the values that it formats
  into them. The lines of \<open>resize_image\<close> begin with a check mark and a cross, and the
  four lines of the tree that \<open>main\<close> prints are drawn with box characters.
\<close>

datatype line =
    Resized path int int path
  | ErrorProcessing path error
  | BackupDirectoryCreated path
  | PreviewDirectory path
  | SliderDirectory path
  | BackedUp string
  | DirectoryMissing path
  | ProcessingIn path
  | BackupOriginals bool
  | TreeRoot path
  | TreeBackup
  | TreePreview
  | TreeSlider
  | Text string

text \<open>
  Every call that the script makes of the operating system, of the imaging library and
  of the console can be refused for a reason that lies outside the script: a missing
  permission, a full disk, memory that runs out, a name that is too long, a console
  whose encoding has no code for a character. The environment of a run says which calls
  it refuses, and with which exception; it does not change during the run.
\<close>

datatype call =
    Mkdir path
  | Listdir path
  | Copy2 path path
  | ImageOpen path
  | Convert string picture
  | Resize "int \<times> int" picture
  | Crop "int \<times> int \<times> int \<times> int" picture
  | New string "int \<times> int"
  | Paste picture picture "int \<times> int"
  | Save path format picture
  | Print line

type_synonym environment = "call \<Rightarrow> error option"

section \<open>The operating system\<close>

text \<open>\<open>os.listdir\<close>: the names of the entries of a directory, in the order of storage.\<close>

definition listdir :: "environment \<Rightarrow> filesystem \<Rightarrow> path \<Rightarrow> error + string list" where
  "listdir env fs d =
     (case fs_lookup fs d of
        None \<Rightarrow> Inl FileNotFoundError
      | Some (File c) \<Rightarrow> Inl NotADirectoryError
      | Some Dir \<Rightarrow>
          (case env (Listdir d) of
             Some e \<Rightarrow> Inl e
           | None \<Rightarrow>
               Inr (remdups (map (\<lambda>e. last (fst e))
                      (filter (\<lambda>e. fst e \<noteq> [] \<and> butlast (fst e) = d) fs)))))"

definition mkdir :: "environment \<Rightarrow> path \<Rightarrow> filesystem \<Rightarrow> error + filesystem" where
  "mkdir env p fs =
     (if path_exists fs p then Inl FileExistsError
      else case fs_lookup fs (butlast p) of
             None \<Rightarrow> Inl FileNotFoundError
           | Some (File c) \<Rightarrow> Inl NotADirectoryError
           | Some Dir \<Rightarrow>
               (case env (Mkdir p) of
                  Some e \<Rightarrow> Inl e
                | None \<Rightarrow> Inr (fs_put p Dir fs)))"

text \<open>
  \<open>os.makedirs name exist_ok=True\<close>: the missing ancestors are made first, where a
  \<open>FileExistsError\<close> is passed over; an \<open>OSError\<close> of the last \<open>mkdir\<close> is ignored when
  the directory is there.
\<close>

function makedirs :: "environment \<Rightarrow> path \<Rightarrow> filesystem \<Rightarrow> error + filesystem" where
  "makedirs env p fs =
     (case (if p \<noteq> [] \<and> butlast p \<noteq> [] \<and> \<not> path_exists fs (butlast p)
            then (case makedirs env (butlast p) fs of
                    Inl e \<Rightarrow> (if e = FileExistsError then Inr fs else Inl e)
                  | Inr fs1 \<Rightarrow> Inr fs1)
            else Inr fs) of
        Inl e \<Rightarrow> Inl e
      | Inr fs1 \<Rightarrow>
          (case mkdir env p fs1 of
             Inl e \<Rightarrow> (if is_OSError e \<and> isdir fs1 p then Inr fs1 else Inl e)
           | Inr fs2 \<Rightarrow> Inr fs2))"
  by pat_completeness auto
termination
  by (relation "measure (\<lambda>(env, p, fs). length p)") auto

declare makedirs.simps [simp del]

text \<open>
  \<open>shutil.copy2 src dst\<close>: a destination that is a directory receives the file under
  its own name.
\<close>

definition copy2 :: "environment \<Rightarrow> path \<Rightarrow> path \<Rightarrow> filesystem \<Rightarrow> error + filesystem" where
  "copy2 env src dst fs =
     (case fs_lookup fs src of
        None \<Rightarrow> Inl FileNotFoundError
      | Some Dir \<Rightarrow> Inl IsADirectoryError
      | Some (File c) \<Rightarrow>
          (let dst' = (if isdir fs dst then path_join dst (last src) else dst)
           in if dst' = src then Inl SameFileError
              else if isdir fs dst' then Inl IsADirectoryError
              else case fs_lookup fs (butlast dst') of
                     None \<Rightarrow> Inl FileNotFoundError
                   | Some (File c') \<Rightarrow> Inl NotADirectoryError
                   | Some Dir \<Rightarrow>
                       (case env (Copy2 src dst) of
                          Some e \<Rightarrow> Inl e
                        | None \<Rightarrow> Inr (fs_put dst' (File c) fs))))"

section \<open>The imaging library\<close>

text \<open>
  The operations of the imaging library that the script calls, with the errors they
  raise. \<open>Image.open\<close> fails on a missing file, on a directory, on bytes that it does
  not identify, and on a picture of more than twice \<open>MAX_IMAGE_PIXELS\<close> pixels; it reads
  the header only. \<open>convert\<close>, \<open>resize\<close>, \<open>crop\<close> and \<open>paste\<close> load the pixels, which
  fails on a truncated picture. \<open>resize\<close> copies a picture that has the wanted size and
  wants a size of at least one pixel each way otherwise; \<open>crop\<close> wants a box whose right
  and lower edges are not before the left and upper ones, of no more pixels than
  \<open>Image.open\<close> admits, and returns a picture of the size of the box; \<open>Image.new\<close>
  wants a size that is not negative; \<open>paste\<close> leaves size and mode of the canvas as
  they are.
\<close>

definition MAX_IMAGE_PIXELS :: int where
  "MAX_IMAGE_PIXELS = 89478485"

definition decompression_bomb :: "int \<times> int \<Rightarrow> bool" where
  "decompression_bomb sz = (fst sz * snd sz > 2 * MAX_IMAGE_PIXELS)"

definition image_open :: "environment \<Rightarrow> filesystem \<Rightarrow> path \<Rightarrow> error + picture" where
  "image_open env fs p =
     (case fs_lookup fs p of
        None \<Rightarrow> Inl FileNotFoundError
      | Some Dir \<Rightarrow> Inl IsADirectoryError
      | Some (File c) \<Rightarrow>
          (case env (ImageOpen p) of
             Some e \<Rightarrow> Inl e
           | None \<Rightarrow>
               (case c of
                  Garbage \<Rightarrow> Inl UnidentifiedImageError
                | ImageFile img \<Rightarrow>
                    if decompression_bomb (int (width img), int (height img))
                    then Inl DecompressionBombError
                    else Inr img)))"

definition convert :: "environment \<Rightarrow> string \<Rightarrow> picture \<Rightarrow> error + picture" where
  "convert env m img =
     (if \<not> loads img then Inl OSError
      else case env (Convert m img) of
             Some e \<Rightarrow> Inl e
           | None \<Rightarrow> Inr (Converted m img))"

definition resize :: "environment \<Rightarrow> int \<times> int \<Rightarrow> picture \<Rightarrow> error + picture" where
  "resize env sz img =
     (if \<not> loads img then Inl OSError
      else if (int (width img), int (height img)) = sz then Inr img
      else if fst sz < 1 \<or> snd sz < 1 then Inl ValueError
      else case env (Resize sz img) of
             Some e \<Rightarrow> Inl e
           | None \<Rightarrow> Inr (Scaled (nat (fst sz), nat (snd sz)) img))"

definition crop :: "environment \<Rightarrow> int \<times> int \<times> int \<times> int \<Rightarrow> picture \<Rightarrow> error + picture" where
  "crop env box img =
     (case box of (x0, y0, x1, y1) \<Rightarrow>
        if x1 < x0 \<or> y1 < y0 then Inl ValueError
        else if \<not> loads img then Inl OSError
        else if decompression_bomb (x1 - x0, y1 - y0) then Inl DecompressionBombError
        else case env (Crop box img) of
               Some e \<Rightarrow> Inl e
             | None \<Rightarrow> Inr (Cropped box img))"

definition image_new :: "environment \<Rightarrow> string \<Rightarrow> int \<times> int \<Rightarrow> error + picture" where
  "image_new env m sz =
     (if fst sz < 0 \<or> snd sz < 0 then Inl ValueError
      else case env (New m sz) of
             Some e \<Rightarrow> Inl e
           | None \<Rightarrow> Inr (Blank m (nat (fst sz), nat (snd sz))))"

definition paste :: "environment \<Rightarrow> picture \<Rightarrow> picture \<Rightarrow> int \<times> int \<Rightarrow> error + picture" where
  "paste env canvas img offset =
     (if \<not> loads img then Inl OSError
      else case env (Paste canvas img offset) of
             Some e \<Rightarrow> Inl e
           | None \<Rightarrow> Inr (Pasted canvas img offset))"

fun writable_modes :: "format \<Rightarrow> string list" where
  "writable_modes JPEG = [''1'', ''L'', ''RGB'', ''RGBX'', ''CMYK'', ''YCbCr'']"
| "writable_modes PNG = [''1'', ''L'', ''LA'', ''I'', ''I;16'', ''P'', ''RGB'', ''RGBA'']"

definition encode :: "format \<Rightarrow> picture \<Rightarrow> error option" where
  "encode fmt img =
     (if width img = 0 \<or> height img = 0 then Some ValueError
      else if mode img \<notin> set (writable_modes fmt) then Some OSError
      else None)"

text \<open>
  \<open>save\<close> opens the file for writing, which needs the parent directory and a path that
  is not a directory, and then encodes. When the encoder refuses the picture, a file
  that was there before is left truncated and a file that was not is removed again.
\<close>

definition save :: "environment \<Rightarrow> path \<Rightarrow> format \<Rightarrow> picture \<Rightarrow> filesystem \<Rightarrow> error option \<times> filesystem" where
  "save env p fmt img fs =
     (if isdir fs p then (Some IsADirectoryError, fs)
      else case fs_lookup fs (butlast p) of
             None \<Rightarrow> (Some FileNotFoundError, fs)
           | Some (File c) \<Rightarrow> (Some NotADirectoryError, fs)
           | Some Dir \<Rightarrow>
               (case env (Save p fmt img) of
                  Some e \<Rightarrow> (Some e, fs)
                | None \<Rightarrow>
                    (case encode fmt img of
                       None \<Rightarrow> (None, fs_put p (File (ImageFile (Encoded fmt img))) fs)
                     | Some e \<Rightarrow>
                         (Some e, if path_exists fs p then fs_put p (File Garbage) fs else fs))))"

section \<open>Floating-point numbers\<close>

text \<open>
  The quotients of lines 34, 35, 53, 65, 66 and 72 and the products of lines 40 and 76
  are computed in double precision: the exact result is rounded to the nearest number
  with a significand of 53 bits, a tie going to the even significand. The values of
  doubles are kept as rationals. The range of the exponent is not modelled: the sizes
  of pictures are far from the largest and the smallest double.
\<close>

fun bit_length :: "nat \<Rightarrow> nat" where
  "bit_length n = (if n = 0 then 0 else Suc (bit_length (n div 2)))"

declare bit_length.simps [simp del]

text \<open>The exponent \<open>e\<close> of a positive number \<open>a\<close>: the integer with \<open>2 ^ e \<le> a < 2 ^ (e + 1)\<close>.\<close>

definition exponent :: "rat \<Rightarrow> int" where
  "exponent a =
     (if 1 \<le> a then int (bit_length (nat \<lfloor>a\<rfloor>)) - 1
      else - int (bit_length (nat (\<lceil>1 / a\<rceil> - 1))))"

definition round_half_even :: "rat \<Rightarrow> int" where
  "round_half_even y =
     (let n = \<lfloor>y\<rfloor>; r = y - of_int n
      in if r < 1 / 2 then n
         else if 1 / 2 < r then n + 1
         else if even n then n else n + 1)"

definition pow2 :: "int \<Rightarrow> rat" where
  "pow2 k = (if 0 \<le> k then 2 ^ nat k else 1 / 2 ^ nat (- k))"

definition round_to_double :: "rat \<Rightarrow> rat" where
  "round_to_double x =
     (if x = 0 then 0
      else let a = \<bar>x\<bar>;
               ulp = pow2 (exponent a - 52);
               m = of_int (round_half_even (a / ulp)) * ulp
           in if x < 0 then - m else m)"

text \<open>
  The operations of Python on an integer and a float: the integer is converted to a
  float first. The quotient of two integers is rounded once. \<open>int\<close> of a float
  truncates towards zero.
\<close>

definition float_of_int :: "int \<Rightarrow> rat" where
  "float_of_int n = round_to_double (of_int n)"

definition truediv :: "int \<Rightarrow> int \<Rightarrow> rat" where
  "truediv a b = round_to_double (of_int a / of_int b)"

definition float_mul :: "rat \<Rightarrow> rat \<Rightarrow> rat" where
  "float_mul x y = round_to_double (x * y)"

definition float_div :: "rat \<Rightarrow> rat \<Rightarrow> rat" where
  "float_div x y = round_to_double (x / y)"

definition py_int :: "rat \<Rightarrow> int" where
  "py_int x = (if 0 \<le> x then \<lfloor>x\<rfloor> else \<lceil>x\<rceil>)"

section \<open>resize_image (resize_portfolio_images.py)\<close>

text \<open>
  The state of a run is the file system and what has been printed, together with the
  environment of the run. A statement returns the exception that it raises, if any, and
  the state that it leaves. \<open>print\<close> adds its line to the output unless the console
  refuses the line.
\<close>

record world =
  files :: filesystem
  stdout :: "line list"
  refusals :: environment

definition emit :: "line \<Rightarrow> world \<Rightarrow> error option \<times> world" where
  "emit l w =
     (case refusals w (Print l) of
        Some e \<Rightarrow> (Some e, w)
      | None \<Rightarrow> (None, w\<lparr>stdout := stdout w @ [l]\<rparr>))"

text \<open>One statement after another: the second one runs when the first has raised nothing.\<close>

definition and_then :: "error option \<times> world \<Rightarrow> (world \<Rightarrow> error option \<times> world) \<Rightarrow> error option \<times> world" where
  "and_then r f = (case r of (Some e, w) \<Rightarrow> (Some e, w) | (None, w) \<Rightarrow> f w)"

fun emits :: "line list \<Rightarrow> world \<Rightarrow> error option \<times> world" where
  "emits [] w = (None, w)"
| "emits (l # ls) w = and_then (emit l w) (emits ls)"

text \<open>
  Crop mode, lines 33 to 62: the size to scale to and the box to cut out. The arithmetic
  of the box cannot fail, so it is computed together with the size, before the two calls
  of the library that use them.
\<close>

definition crop_plan :: "picture \<Rightarrow> int \<times> int \<Rightarrow> error + ((int \<times> int) \<times> (int \<times> int \<times> int \<times> int))" where
  "crop_plan img target_size =
     (if height img = 0 then Inl ZeroDivisionError
      else let img_ratio = truediv (int (width img)) (int (height img))
      in if snd target_size = 0 then Inl ZeroDivisionError
      else let target_ratio = truediv (fst target_size) (snd target_size)
      in if img_ratio > target_ratio then
           (let new_height = snd target_size;
                new_width = py_int (float_mul (float_of_int (snd target_size)) img_ratio);
                left = (new_width - fst target_size) div 2;
                top' = 0;
                right = left + fst target_size;
                bottom' = snd target_size
            in Inr ((new_width, new_height), (left, top', right, bottom')))
         else if img_ratio = 0 then Inl ZeroDivisionError
         else
           (let new_width = fst target_size;
                new_height = py_int (float_div (float_of_int (fst target_size)) img_ratio);
                left = 0;
                top' = (new_height - snd target_size) div 2;
                right = fst target_size;
                bottom' = top' + snd target_size
            in Inr ((new_width, new_height), (left, top', right, bottom'))))"

definition crop_fill :: "environment \<Rightarrow> picture \<Rightarrow> int \<times> int \<Rightarrow> error + picture" where
  "crop_fill env img target_size =
     (case crop_plan img target_size of
        Inl e \<Rightarrow> Inl e
      | Inr (new_size, box) \<Rightarrow>
          (case resize env new_size img of
             Inl e \<Rightarrow> Inl e
           | Inr resized \<Rightarrow> crop env box resized))"

text \<open>Padding mode, lines 64 to 88.\<close>

definition pad_fit :: "environment \<Rightarrow> picture \<Rightarrow> int \<times> int \<Rightarrow> error + picture" where
  "pad_fit env img target_size =
     (if height img = 0 then Inl ZeroDivisionError
      else let img_ratio = truediv (int (width img)) (int (height img))
      in if snd target_size = 0 then Inl ZeroDivisionError
      else let target_ratio = truediv (fst target_size) (snd target_size)
      in case (if img_ratio > target_ratio then
                 (if img_ratio = 0 then Inl ZeroDivisionError
                  else Inr (fst target_size, py_int (float_div (float_of_int (fst target_size)) img_ratio)))
               else Inr (py_int (float_mul (float_of_int (snd target_size)) img_ratio), snd target_size)) of
           Inl e \<Rightarrow> Inl e
         | Inr (new_width, new_height) \<Rightarrow>
             (case resize env (new_width, new_height) img of
                Inl e \<Rightarrow> Inl e
              | Inr resized_img \<Rightarrow>
                  (case image_new env ''RGB'' target_size of
                     Inl e \<Rightarrow> Inl e
                   | Inr final_img \<Rightarrow>
                       (let x_offset = (fst target_size - new_width) div 2;
                            y_offset = (snd target_size - new_height) div 2
                        in paste env final_img resized_img (x_offset, y_offset)))))"

definition save_format :: "path \<Rightarrow> format" where
  "save_format output_path =
     (if endswith (lower (path_string output_path)) ''.jpg''
         \<or> endswith (lower (path_string output_path)) ''.jpeg''
      then JPEG else PNG)"

text \<open>Lines 29 and 30: the three modes that are converted.\<close>

definition to_rgb_if_necessary :: "environment \<Rightarrow> picture \<Rightarrow> error + picture" where
  "to_rgb_if_necessary env img =
     (if mode img \<in> set [''RGBA'', ''LA'', ''P''] then convert env ''RGB'' img else Inr img)"

text \<open>Lines 29 to 88: the picture that is handed to \<open>save\<close>.\<close>

definition final_img :: "environment \<Rightarrow> picture \<Rightarrow> int \<times> int \<Rightarrow> bool \<Rightarrow> error + picture" where
  "final_img env img0 target_size crop_mode =
     (case to_rgb_if_necessary env img0 of
        Inl e \<Rightarrow> Inl e
      | Inr img \<Rightarrow>
          (if crop_mode then crop_fill env img target_size else pad_fit env img target_size))"

text \<open>
  The body of the \<open>try\<close>, lines 27 to 96: the error it raises, if any, and the state it
  leaves. The line of success is printed inside the \<open>try\<close>.
\<close>

definition resize_image_try :: "path \<Rightarrow> path \<Rightarrow> int \<times> int \<Rightarrow> int \<Rightarrow> bool \<Rightarrow> world \<Rightarrow> error option \<times> world" where
  "resize_image_try input_path output_path target_size quality crop_mode w =
     (case image_open (refusals w) (files w) input_path of
        Inl e \<Rightarrow> (Some e, w)
      | Inr img0 \<Rightarrow>
          (case final_img (refusals w) img0 target_size crop_mode of
             Inl e \<Rightarrow> (Some e, w)
           | Inr final \<Rightarrow>
               (case save (refusals w) output_path (save_format output_path) final (files w) of
                  (Some e, fs') \<Rightarrow> (Some e, w\<lparr>files := fs'\<rparr>)
                | (None, fs') \<Rightarrow>
                    emit (Resized input_path (fst target_size) (snd target_size) output_path)
                      (w\<lparr>files := fs'\<rparr>))))"

text \<open>
  The whole function. \<open>except Exception\<close> catches what the body raises and prints the
  error; this \<open>print\<close> stands in the handler, outside the \<open>try\<close>, so that an exception
  of its own leaves the function. The first component of the result is the exception
  that reaches the caller.
\<close>

definition resize_image :: "path \<Rightarrow> path \<Rightarrow> int \<times> int \<Rightarrow> int \<Rightarrow> bool \<Rightarrow> world \<Rightarrow> error option \<times> world" where
  "resize_image input_path output_path target_size quality crop_mode w =
     (case resize_image_try input_path output_path target_size quality crop_mode w of
        (None, w') \<Rightarrow> (None, w')
      | (Some e, w') \<Rightarrow> emit (ErrorProcessing input_path e) w')"

section \<open>The batch driver and the command line\<close>

definition image_extensions :: "string list" where
  "image_extensions = [''.jpg'', ''.jpeg'', ''.png'', ''.bmp'', ''.tiff'', ''.webp'']"

definition preview_size :: "int \<times> int" where
  "preview_size = (800, 600)"

definition slider_size :: "int \<times> int" where
  "slider_size = (1200, 800)"

definition backup_dir :: "path \<Rightarrow> path" where
  "backup_dir portfolio_dir = path_join portfolio_dir ''backup_original''"

definition preview_dir :: "path \<Rightarrow> path" where
  "preview_dir portfolio_dir = path_join portfolio_dir ''preview''"

definition slider_dir :: "path \<Rightarrow> path" where
  "slider_dir portfolio_dir = path_join portfolio_dir ''slider''"

definition preview_path :: "path \<Rightarrow> string \<Rightarrow> path" where
  "preview_path portfolio_dir filename =
     (let base_name = fst (splitext filename); ext = snd (splitext filename);
          preview_filename = base_name @ ''_preview'' @ ext
      in path_join (preview_dir portfolio_dir) preview_filename)"

definition slider_path :: "path \<Rightarrow> string \<Rightarrow> path" where
  "slider_path portfolio_dir filename =
     (let base_name = fst (splitext filename); ext = snd (splitext filename);
          slider_filename = base_name @ ''_slider'' @ ext
      in path_join (slider_dir portfolio_dir) slider_filename)"

text \<open>
  Lines 144 to 148: the copy into the backup directory, made when there is none yet.
  The copy and its \<open>print\<close> stand outside every \<open>try\<close>.
\<close>

definition backup_original :: "path \<Rightarrow> string \<Rightarrow> world \<Rightarrow> error option \<times> world" where
  "backup_original portfolio_dir filename w =
     (let input_path = path_join portfolio_dir filename;
          backup_path = path_join (backup_dir portfolio_dir) filename
      in if \<not> path_exists (files w) backup_path then
           (case copy2 (refusals w) input_path backup_path (files w) of
              Inl e \<Rightarrow> (Some e, w)
            | Inr fs' \<Rightarrow> emit (BackedUp filename) (w\<lparr>files := fs'\<rparr>))
         else (None, w))"

text \<open>One round of the loop of lines 132 to 162; the default quality is 85.\<close>

definition process_file :: "path \<Rightarrow> bool \<Rightarrow> string \<Rightarrow> world \<Rightarrow> error option \<times> world" where
  "process_file portfolio_dir backup filename w =
     (if \<not> isfile (files w) (path_join portfolio_dir filename) then (None, w)
      else let file_ext = lower (snd (splitext filename))
      in if file_ext \<notin> set image_extensions then (None, w)
      else let input_path = path_join portfolio_dir filename
      in and_then
           (and_then (if backup then backup_original portfolio_dir filename w else (None, w))
              (resize_image input_path (preview_path portfolio_dir filename) preview_size 85 True))
           (resize_image input_path (slider_path portfolio_dir filename) slider_size 85 True))"

fun process_files :: "path \<Rightarrow> bool \<Rightarrow> string list \<Rightarrow> world \<Rightarrow> error option \<times> world" where
  "process_files portfolio_dir backup [] w = (None, w)"
| "process_files portfolio_dir backup (filename # rest) w =
     and_then (process_file portfolio_dir backup filename w)
       (process_files portfolio_dir backup rest)"

text \<open>Lines 115 to 126: the output directories and the lines that name them.\<close>

definition make_directories :: "path \<Rightarrow> bool \<Rightarrow> world \<Rightarrow> error option \<times> world" where
  "make_directories portfolio_dir backup w =
     (case (if backup then
              (case makedirs (refusals w) (backup_dir portfolio_dir) (files w) of
                 Inl e \<Rightarrow> (Some e, w)
               | Inr fs' \<Rightarrow>
                   emit (BackupDirectoryCreated (backup_dir portfolio_dir)) (w\<lparr>files := fs'\<rparr>))
            else (None, w)) of
        (Some e, w1) \<Rightarrow> (Some e, w1)
      | (None, w1) \<Rightarrow>
          (case makedirs (refusals w1) (preview_dir portfolio_dir) (files w1) of
             Inl e \<Rightarrow> (Some e, w1)
           | Inr fs2 \<Rightarrow>
               (case makedirs (refusals w1) (slider_dir portfolio_dir) fs2 of
                  Inl e \<Rightarrow> (Some e, w1\<lparr>files := fs2\<rparr>)
                | Inr fs3 \<Rightarrow>
                    emits [PreviewDirectory (preview_dir portfolio_dir),
                           SliderDirectory (slider_dir portfolio_dir)] (w1\<lparr>files := fs3\<rparr>))))"

definition process_portfolio_images :: "path \<Rightarrow> bool \<Rightarrow> world \<Rightarrow> error option \<times> world" where
  "process_portfolio_images portfolio_dir backup w =
     and_then (make_directories portfolio_dir backup w)
       (\<lambda>w3. case listdir (refusals w3) (files w3) portfolio_dir of
                Inl e \<Rightarrow> (Some e, w3)
              | Inr names \<Rightarrow> process_files portfolio_dir backup names w3)"

text \<open>
  The command line after parsing. \<open>main\<close> gives the exit status of the process: 1 from
  \<open>sys.exit 1\<close>, 1 when an exception leaves \<open>main\<close>, 0 when \<open>main\<close> returns.
\<close>

record args =
  portfolio_dir :: path
  no_backup :: bool

definition main :: "args \<Rightarrow> world \<Rightarrow> nat \<times> world" where
  "main a w =
     (if \<not> path_exists (files w) (portfolio_dir a) then
        (1, snd (emits [DirectoryMissing (portfolio_dir a),
                        Text ''Please provide the correct path to your portfolio images directory.''] w))
      else
        (case and_then
                (and_then
                   (emits [Text ''Portfolio Image Resizer - Dual Version (Smart Cropping)'',
                           Text (replicate 50 CHR ''=''),
                           ProcessingIn (portfolio_dir a),
                           Text ''Preview size: 800x600px (4:3 ratio) - Smart cropped'',
                           Text ''Slider size: 1200x800px (3:2 ratio) - Smart cropped'',
                           BackupOriginals (\<not> no_backup a),
                           Text []] w)
                   (process_portfolio_images (portfolio_dir a) (\<not> no_backup a)))
                (emits [Text (CHR 0x0A # replicate 50 CHR ''=''),
                        Text ''Resizing complete!'',
                        Text (CHR 0x0A # ''File structure created:''),
                        TreeRoot (portfolio_dir a), TreeBackup, TreePreview, TreeSlider,
                        Text (CHR 0x0A # ''Next steps:''),
                        Text ''1. Update templates to use preview/ and slider/ images'',
                        Text ''2. Test the portfolio display'',
                        Text ''3. Delete original images if satisfied'']) of
           (Some e, w') \<Rightarrow> (1, w')
         | (None, w') \<Rightarrow> (0, w')))"

section \<open>Conditions on a run\<close>

text \<open>
  The conditions under which the properties of the batch driver are stated. Nothing is
  refused when the environment refuses no call. A file is recognised when it passes the
  two guards of lines 133 to 138. The derivative of a file is the picture that a call of
  \<open>resize_image\<close> in crop mode hands to the file system when \<open>Image.open\<close>, lines 29 to
  62 and the encoder raise nothing. A valid image file is a recognised file that has a
  derivative in both sizes of the batch driver; a corrupt image file is a recognised file
  whose bytes are not identified or whose pixel data break off. The output names are
  free when no directory sits where an output file is to be written. The output
  directories are ready when they exist, and can be made when the portfolio directory
  exists and no regular file has taken one of their names.
\<close>

definition nothing_refused :: "world \<Rightarrow> bool" where
  "nothing_refused w = (refusals w = (\<lambda>c. None))"

definition recognised :: "path \<Rightarrow> string \<Rightarrow> filesystem \<Rightarrow> bool" where
  "recognised d f fs =
     (isfile fs (path_join d f) \<and> lower (snd (splitext f)) \<in> set image_extensions)"

definition derivative :: "environment \<Rightarrow> filesystem \<Rightarrow> path \<Rightarrow> path \<Rightarrow> int \<times> int \<Rightarrow> error + picture" where
  "derivative env fs input_path output_path target_size =
     (case image_open env fs input_path of
        Inl e \<Rightarrow> Inl e
      | Inr img0 \<Rightarrow>
          (case final_img env img0 target_size True of
             Inl e \<Rightarrow> Inl e
           | Inr final \<Rightarrow>
               (case encode (save_format output_path) final of
                  Some e \<Rightarrow> Inl e
                | None \<Rightarrow> Inr (Encoded (save_format output_path) final))))"

definition valid_image_file :: "environment \<Rightarrow> path \<Rightarrow> string \<Rightarrow> filesystem \<Rightarrow> bool" where
  "valid_image_file env d f fs =
     (recognised d f fs
      \<and> isl (derivative env fs (path_join d f) (preview_path d f) preview_size) = False
      \<and> isl (derivative env fs (path_join d f) (slider_path d f) slider_size) = False)"

definition corrupt_image_file :: "path \<Rightarrow> string \<Rightarrow> filesystem \<Rightarrow> bool" where
  "corrupt_image_file d f fs =
     (lower (snd (splitext f)) \<in> set image_extensions
      \<and> (case fs_lookup fs (path_join d f) of
            Some (File Garbage) \<Rightarrow> True
          | Some (File (ImageFile img)) \<Rightarrow> loads img = False
          | _ \<Rightarrow> False))"

definition outputs_free :: "path \<Rightarrow> string \<Rightarrow> filesystem \<Rightarrow> bool" where
  "outputs_free d f fs = (isdir fs (preview_path d f) = False \<and> isdir fs (slider_path d f) = False)"

definition dirs_ready :: "path \<Rightarrow> bool \<Rightarrow> filesystem \<Rightarrow> bool" where
  "dirs_ready d backup fs =
     (isdir fs (preview_dir d) \<and> isdir fs (slider_dir d) \<and> (backup = False \<or> isdir fs (backup_dir d)))"

definition dirs_can_be_made :: "path \<Rightarrow> bool \<Rightarrow> filesystem \<Rightarrow> bool" where
  "dirs_can_be_made d backup fs =
     (isdir fs d \<and> isfile fs (preview_dir d) = False \<and> isfile fs (slider_dir d) = False
      \<and> (backup = False \<or> isfile fs (backup_dir d) = False))"

text \<open>
  What the claims say of the results: both derivatives of a file, as computed from the
  file system before the run, are in the file system after the run, in the two sizes of
  the batch driver; and a file system keeps every entry of another.
\<close>

definition derivatives_present :: "environment \<Rightarrow> path \<Rightarrow> string \<Rightarrow> filesystem \<Rightarrow> filesystem \<Rightarrow> bool" where
  "derivatives_present env d f fs fs' =
     ((case derivative env fs (path_join d f) (preview_path d f) preview_size of
         Inl e \<Rightarrow> False
       | Inr p \<Rightarrow> fs_lookup fs' (preview_path d f) = Some (File (ImageFile p))
                  \<and> width p = 800 \<and> height p = 600)
      \<and> (case derivative env fs (path_join d f) (slider_path d f) slider_size of
            Inl e \<Rightarrow> False
          | Inr p \<Rightarrow> fs_lookup fs' (slider_path d f) = Some (File (ImageFile p))
                     \<and> width p = 1200 \<and> height p = 800))"

definition extends :: "filesystem \<Rightarrow> filesystem \<Rightarrow> bool" where
  "extends fs fs' = (\<forall>q n. fs_lookup fs q = Some n \<longrightarrow> fs_lookup fs' q = Some n)"

section \<open>Example states\<close>

text \<open>
  A portfolio directory \<open>p\<close> before any run, with a wide picture, a tall picture with an
  alpha channel, a grey picture, a file that is no image, a picture whose file breaks
  off and a text file; and the same directory with the output directories in place. In
  both states nothing is refused.
\<close>

definition example_files :: filesystem where
  "example_files =
     [([''p''], Dir),
      ([''p'', ''a.jpg''], File (ImageFile (Pixels 2000 1000 ''RGB''))),
      ([''p'', ''bad.png''], File Garbage),
      ([''p'', ''tall.PNG''], File (ImageFile (Pixels 300 900 ''RGBA''))),
      ([''p'', ''grey.jpg''], File (ImageFile (Pixels 640 480 ''L''))),
      ([''p'', ''cut.jpg''], File (ImageFile (Truncated (Pixels 1024 768 ''RGB'')))),
      ([''p'', ''notes.txt''], File Garbage)]"

definition example_world :: world where
  "example_world = \<lparr>files = example_files, stdout = [], refusals = (\<lambda>c. None)\<rparr>"

definition prepared_world :: world where
  "prepared_world =
     \<lparr>files = example_files @ [([''p'', ''preview''], Dir), ([''p'', ''slider''], Dir)],
      stdout = [], refusals = (\<lambda>c. None)\<rparr>"

text \<open>
  Three more states of the directory \<open>p\<close>: one in which a regular file has taken the
  name of the preview directory; one left by an earlier run, with an older backup and
  stale derivatives; and one with the slider directory but no preview directory.
\<close>

definition blocked_world :: world where
  "blocked_world =
     \<lparr>files = [([''p''], Dir),
               ([''p'', ''a.jpg''], File (ImageFile (Pixels 2000 1000 ''RGB''))),
               ([''p'', ''bad.png''], File Garbage),
               ([''p'', ''preview''], File Garbage)],
      stdout = [], refusals = (\<lambda>c. None)\<rparr>"

definition rerun_world :: world where
  "rerun_world =
     \<lparr>files = [([''p''], Dir),
               ([''p'', ''a.jpg''], File (ImageFile (Pixels 2000 1000 ''RGB''))),
               ([''p'', ''bad.png''], File Garbage),
               ([''p'', ''backup_original''], Dir),
               ([''p'', ''backup_original'', ''a.jpg''], File (ImageFile (Pixels 4000 3000 ''RGB''))),
               ([''p'', ''preview''], Dir),
               ([''p'', ''preview'', ''a_preview.jpg''], File Garbage),
               ([''p'', ''preview'', ''bad_preview.png''], File (ImageFile (Pixels 10 10 ''RGB''))),
               ([''p'', ''slider''], Dir),
               ([''p'', ''slider'', ''a_slider.jpg''], File (ImageFile (Pixels 10 10 ''RGB'')))],
      stdout = [], refusals = (\<lambda>c. None)\<rparr>"

definition no_preview_world :: world where
  "no_preview_world =
     \<lparr>files = [([''p''], Dir),
               ([''p'', ''a.jpg''], File (ImageFile (Pixels 2000 1000 ''RGB''))),
               ([''p'', ''slider''], Dir)],
      stdout = [], refusals = (\<lambda>c. None)\<rparr>"

text \<open>
  A console whose encoding has no code for the check mark, the cross and the box
  characters, as the code page 1252 and ASCII: it refuses the lines that hold one of
  them and accepts the others. Nothing else is refused.
\<close>

definition narrow_console :: environment where
  "narrow_console c =
     (case c of
        Print l \<Rightarrow>
          (case l of
             Resized i w h out \<Rightarrow> Some UnicodeEncodeError
           | ErrorProcessing i e \<Rightarrow> Some UnicodeEncodeError
           | TreeRoot d \<Rightarrow> Some UnicodeEncodeError
           | TreeBackup \<Rightarrow> Some UnicodeEncodeError
           | TreePreview \<Rightarrow> Some UnicodeEncodeError
           | TreeSlider \<Rightarrow> Some UnicodeEncodeError
           | _ \<Rightarrow> None)
      | _ \<Rightarrow> None)"

section \<open>Properties of the contact view\<close>

lemma querydict_get_absent: "q key = None \<Longrightarrow> querydict_get q key d = d"
  by (simp add: querydict_get_def)

text \<open>
  Claim C3. A POST to the contact view appends exactly one row to the table and returns
  the home page; the row holds, for each of the four fields, the submitted value, and
  the empty string for every field that is absent from the request.
\<close>

theorem contact_post_stores_one_record:
  assumes "method req = ''POST''"
  shows "\<exists>row. contact req db = (Rendered ''home.html'', db @ [row])
           \<and> length (snd (contact req db)) = Suc (length db)
           \<and> (POST req ''name'' = None \<longrightarrow> name row = '''')
           \<and> (POST req ''email'' = None \<longrightarrow> email row = '''')
           \<and> (POST req ''subject'' = None \<longrightarrow> subject row = '''')
           \<and> (POST req ''message'' = None \<longrightarrow> message row = '''')
           \<and> name row = querydict_get (POST req) ''name'' ''''
           \<and> email row = querydict_get (POST req) ''email'' ''''
           \<and> subject row = querydict_get (POST req) ''subject'' ''''
           \<and> message row = querydict_get (POST req) ''message'' ''''"
  using assms
  by (simp add: contact_def objects_create_def render_def Let_def querydict_get_absent)

theorem contact_post_stores_one_record_witness:
  "method \<lparr>method = ''POST'', POST = [''name'' \<mapsto> [''Ann'']]\<rparr> = ''POST''
   \<and> contact \<lparr>method = ''POST'', POST = [''name'' \<mapsto> [''Ann'']]\<rparr> []
       = (Rendered ''home.html'',
          [\<lparr>name = ''Ann'', email = '''', subject = '''', message = ''''\<rparr>])"
proof -
  let ?req = "\<lparr>method = ''POST'', POST = [''name'' \<mapsto> [''Ann'']]\<rparr>"
  have m: "method ?req = ''POST''" by simp
  from contact_post_stores_one_record [OF m, of "[]"]
  obtain row where r: "contact ?req [] = (Rendered ''home.html'', [] @ [row])"
    and "name row = querydict_get (POST ?req) ''name'' ''''"
    and "email row = querydict_get (POST ?req) ''email'' ''''"
    and "subject row = querydict_get (POST ?req) ''subject'' ''''"
    and "message row = querydict_get (POST ?req) ''message'' ''''"
    by blast
  then have "row = \<lparr>name = ''Ann'', email = '''', subject = '''', message = ''''\<rparr>"
    by (simp add: querydict_get_def)
  with r m show ?thesis by simp
qed

section \<open>The arithmetic of crop mode\<close>

text \<open>
  Claim C1 at a picture of 640 by 427 pixels, to be fitted into 640 by 427 pixels. The
  two aspect ratios are equal, so the second branch is taken, which is to scale to the
  width of the target and then to crop the height down to the height of the target. The
  quotient of line 34 is rounded up, the quotient of line 53 comes out just below 427,
  and \<open>int\<close> truncates it to 426: the picture is scaled to 640 by 426, one row less than
  the target, and the box that is cut out begins one row above the scaled picture.
\<close>

theorem equal_ratio_scales_below_target:
  "crop_plan (Pixels 640 427 ''RGB'') (640, 427) = Inr ((640, 426), (0, - 1, 640, 426))
   \<and> crop_fill (\<lambda>c. None) (Pixels 640 427 ''RGB'') (640, 427)
       = Inr (Cropped (0, - 1, 640, 426) (Scaled (640, 426) (Pixels 640 427 ''RGB'')))
   \<and> height (Scaled (640, 426) (Pixels 640 427 ''RGB'')) < 427
   \<and> (640 :: rat) / 427 < truediv 640 427"
  by code_simp

lemma centred_margins:
  fixes n t :: int
  shows "(n - ((n - t) div 2 + t)) - (n - t) div 2 \<in> {0, 1}"
proof -
  have "(n - ((n - t) div 2 + t)) - (n - t) div 2 = (n - t) mod 2"
    by (simp add: algebra_simps minus_mult_div_eq_mod [symmetric])
  then show ?thesis by (auto simp: mod_2_eq_odd)
qed

lemma crop_plan_geometry:
  assumes "crop_plan img (tw, th) = Inr ((nw, nh), (l, t, r, b))"
  shows "r - l = tw \<and> b - t = th \<and> (nw - r) - l \<in> {0, 1} \<and> (nh - b) - t \<in> {0, 1}"
proof (cases "truediv (int (width img)) (int (height img)) > truediv tw th")
  case True
  with assms have e: "nh = th" "l = (nw - tw) div 2" "t = 0" "r = l + tw" "b = th"
    by (auto simp: crop_plan_def Let_def split: if_splits)
  from centred_margins [of nw tw] e show ?thesis by simp
next
  case False
  with assms have e: "nw = tw" "t = (nh - th) div 2" "l = 0" "r = tw" "b = t + th"
    by (auto simp: crop_plan_def Let_def split: if_splits)
  from centred_margins [of nh th] e show ?thesis by simp
qed

section \<open>Statements in sequence and the console\<close>

lemma and_then_None [simp]: "and_then (None, w) f = f w"
  by (simp add: and_then_def)

lemma and_then_Some [simp]: "and_then (Some e, w) f = (Some e, w)"
  by (simp add: and_then_def)

lemma and_then_cases:
  assumes "and_then r f = (x, w')"
  shows "(\<exists>e. r = (Some e, w') \<and> x = Some e) \<or> (\<exists>w1. r = (None, w1) \<and> f w1 = (x, w'))"
  using assms by (cases r; cases "fst r") (auto simp: and_then_def)

lemma emit_cases:
  assumes "emit l w = (r, w')"
  shows "(r = None \<and> refusals w (Print l) = None \<and> w' = w\<lparr>stdout := stdout w @ [l]\<rparr>)
         \<or> (r \<noteq> None \<and> r = refusals w (Print l) \<and> w' = w)"
  using assms by (auto simp: emit_def split: option.splits)

lemma emit_ok: "refusals w (Print l) = None \<Longrightarrow> emit l w = (None, w\<lparr>stdout := stdout w @ [l]\<rparr>)"
  by (simp add: emit_def)

lemma emit_fst: "fst (emit l w) = refusals w (Print l)"
  by (simp add: emit_def split: option.splits)

lemma emit_files [simp]: "files (snd (emit l w)) = files w"
  by (simp add: emit_def split: option.splits)

lemma emit_refusals [simp]: "refusals (snd (emit l w)) = refusals w"
  by (simp add: emit_def split: option.splits)

lemma emit_stdout_mono: "set (stdout w) \<subseteq> set (stdout (snd (emit l w)))"
  by (auto simp: emit_def split: option.splits)

lemma emits_files [simp]: "files (snd (emits ls w)) = files w"
proof (induction ls arbitrary: w)
  case Nil
  show ?case by simp
next
  case (Cons l ls)
  show ?case
  proof (cases "emit l w")
    case (Pair r w1)
    from emit_files [of l w] Pair have f: "files w1 = files w" by simp
    show ?thesis using Pair f Cons.IH [of w1] by (cases r) simp_all
  qed
qed

lemma emits_refusals [simp]: "refusals (snd (emits ls w)) = refusals w"
proof (induction ls arbitrary: w)
  case Nil
  show ?case by simp
next
  case (Cons l ls)
  show ?case
  proof (cases "emit l w")
    case (Pair r w1)
    from emit_refusals [of l w] Pair have f: "refusals w1 = refusals w" by simp
    show ?thesis using Pair f Cons.IH [of w1] by (cases r) simp_all
  qed
qed

lemma emits_stdout_mono: "set (stdout w) \<subseteq> set (stdout (snd (emits ls w)))"
proof (induction ls arbitrary: w)
  case Nil
  show ?case by simp
next
  case (Cons l ls)
  show ?case
  proof (cases "emit l w")
    case (Pair r w1)
    from emit_stdout_mono [of w l] Pair have f: "set (stdout w) \<subseteq> set (stdout w1)" by simp
    show ?thesis using Pair f Cons.IH [of w1] by (cases r) auto
  qed
qed

lemma emits_ok:
  assumes "refusals w = (\<lambda>c. None)"
  shows "emits ls w = (None, w\<lparr>stdout := stdout w @ ls\<rparr>)"
  using assms
proof (induction ls arbitrary: w)
  case Nil
  show ?case by simp
next
  case (Cons l ls)
  have e: "emit l w = (None, w\<lparr>stdout := stdout w @ [l]\<rparr>)"
    using Cons.prems by (simp add: emit_def)
  have "refusals (w\<lparr>stdout := stdout w @ [l]\<rparr>) = (\<lambda>c. None)" using Cons.prems by simp
  from Cons.IH [OF this] e show ?case by simp
qed

section \<open>The file system and the imaging library\<close>

lemma fs_lookup_put:
  "fs_lookup (fs_put p n fs) q = (if q = [] then Some Dir else if q = p then Some n else fs_lookup fs q)"
  by (simp add: fs_lookup_def fs_put_def update_conv')

lemma fs_lookup_nil: "fs_lookup fs [] = Some Dir"
  by (simp add: fs_lookup_def)

lemma isdir_nil: "isdir fs []"
  by (simp add: isdir_def fs_lookup_nil)

lemma save_frame:
  assumes "save env p fmt img fs = (r, fs')" "q \<noteq> p"
  shows "fs_lookup fs' q = fs_lookup fs q"
  using assms
  by (auto simp: save_def fs_lookup_put fs_lookup_nil split: if_splits option.splits node.splits)

lemma save_written:
  assumes "save env p fmt img fs = (None, fs')"
  shows "fs_lookup fs' p = Some (File (ImageFile (Encoded fmt img)))"
  using assms
  using isdir_nil [of fs]
  by (auto simp: save_def fs_lookup_put split: if_splits option.splits node.splits)

lemma save_ok:
  assumes "\<not> isdir fs p" "fs_lookup fs (butlast p) = Some Dir" "env (Save p fmt img) = None"
    "encode fmt img = None"
  shows "save env p fmt img fs = (None, fs_put p (File (ImageFile (Encoded fmt img))) fs)"
  using assms by (simp add: save_def)

lemma save_isdir:
  assumes "save env p fmt img fs = (r, fs')"
  shows "isdir fs' q = isdir fs q"
  using assms
  using isdir_nil [of fs]
  by (auto simp: save_def fs_lookup_put isdir_def fs_lookup_nil path_exists_def
           split: if_splits option.splits node.splits)

lemma crop_result:
  assumes "crop env (l, t, r, b) img = Inr final"
  shows "final = Cropped (l, t, r, b) img \<and> l \<le> r \<and> t \<le> b"
  using assms by (auto simp: crop_def split: if_splits option.splits)

lemma resize_result:
  assumes "resize env (nw, nh) img = Inr resized"
  shows "int (width resized) = nw \<and> int (height resized) = nh \<and> mode resized = mode img
         \<and> loads img \<and> (resized = img \<or> resized = Scaled (nat nw, nat nh) img)"
  using assms by (auto simp: resize_def split: if_splits option.splits)

lemma crop_fill_result:
  assumes "crop_fill env img (tw, th) = Inr final"
  shows "\<exists>nw nh l t r b resized.
           crop_plan img (tw, th) = Inr ((nw, nh), (l, t, r, b))
           \<and> resize env (nw, nh) img = Inr resized
           \<and> int (width resized) = nw \<and> int (height resized) = nh
           \<and> final = Cropped (l, t, r, b) resized
           \<and> int (width final) = tw \<and> int (height final) = th \<and> mode final = mode img
           \<and> r - l = tw \<and> b - t = th
           \<and> (nw - r) - l \<in> {0, 1} \<and> (nh - b) - t \<in> {0, 1}"
proof -
  from assms obtain nw nh l t r b resized where
    plan: "crop_plan img (tw, th) = Inr ((nw, nh), (l, t, r, b))"
    and rs: "resize env (nw, nh) img = Inr resized"
    and cr: "crop env (l, t, r, b) resized = Inr final"
    by (auto simp: crop_fill_def split: sum.splits prod.splits)
  note g = crop_plan_geometry [OF plan]
  note c = crop_result [OF cr]
  note z = resize_result [OF rs]
  from c g have sz: "int (width final) = tw" "int (height final) = th" by auto
  from c z have md: "mode final = mode img" by simp
  from plan rs z c sz md g show ?thesis by blast
qed

lemma pad_fit_result:
  assumes "pad_fit env img (tw, th) = Inr final"
  shows "int (width final) = tw \<and> int (height final) = th \<and> mode final = ''RGB''"
  using assms
  by (auto simp: pad_fit_def Let_def paste_def image_new_def
           split: if_splits sum.splits prod.splits option.splits)

lemma convert_result:
  assumes "convert env m img = Inr img'"
  shows "img' = Converted m img"
  using assms by (auto simp: convert_def split: if_splits option.splits)

lemma unloadable_not_resized: "\<not> loads img \<Longrightarrow> isl (resize env sz img)"
  by (simp add: resize_def)

lemma unloadable_no_final:
  assumes "\<not> loads img"
  shows "isl (final_img env img ts True)"
proof (cases "mode img \<in> set [''RGBA'', ''LA'', ''P'']")
  case True
  with assms show ?thesis
    by (simp add: final_img_def to_rgb_if_necessary_def convert_def)
next
  case False
  then have "to_rgb_if_necessary env img = Inr img" by (simp add: to_rgb_if_necessary_def)
  with assms show ?thesis
    by (auto simp: final_img_def crop_fill_def resize_def split: sum.splits prod.splits)
qed

section \<open>resize_image\<close>

lemma resize_image_try_cases:
  assumes "resize_image_try inp out ts q cm w = (r, w')"
  shows "(r \<noteq> None \<and> w' = w)
         \<or> (\<exists>img0 final rs fs'.
               image_open (refusals w) (files w) inp = Inr img0
               \<and> final_img (refusals w) img0 ts cm = Inr final
               \<and> save (refusals w) out (save_format out) final (files w) = (rs, fs')
               \<and> files w' = fs' \<and> refusals w' = refusals w
               \<and> (r = None \<longrightarrow> rs = None)
               \<and> stdout w' = (case r of None \<Rightarrow> stdout w @ [Resized inp (fst ts) (snd ts) out]
                                | Some e \<Rightarrow> stdout w))"
proof (cases "image_open (refusals w) (files w) inp")
  case (Inl e)
  with assms show ?thesis by (auto simp: resize_image_try_def)
next
  case (Inr img0)
  show ?thesis
  proof (cases "final_img (refusals w) img0 ts cm")
    case (Inl e)
    with assms Inr show ?thesis by (auto simp: resize_image_try_def)
  next
    case fin: (Inr final)
    obtain rs fs' where sv: "save (refusals w) out (save_format out) final (files w) = (rs, fs')"
      by (cases "save (refusals w) out (save_format out) final (files w)") auto
    with assms Inr fin have "files w' = fs'" "refusals w' = refusals w" "r = None \<longrightarrow> rs = None"
       "stdout w' = (case r of None \<Rightarrow> stdout w @ [Resized inp (fst ts) (snd ts) out]
                                | Some e \<Rightarrow> stdout w)"
      by (auto simp: resize_image_try_def emit_def split: option.splits)
    with sv Inr fin show ?thesis by blast
  qed
qed

lemma resize_image_try_refusals:
  assumes "resize_image_try inp out ts q cm w = (r, w')"
  shows "refusals w' = refusals w"
  using resize_image_try_cases [OF assms] by auto

lemma resize_image_try_frame:
  assumes "resize_image_try inp out ts q cm w = (r, w')" "p \<noteq> out"
  shows "fs_lookup (files w') p = fs_lookup (files w) p"
  using resize_image_try_cases [OF assms(1)] assms(2) by (auto dest: save_frame)

lemma resize_image_try_isdir:
  assumes "resize_image_try inp out ts q cm w = (r, w')"
  shows "isdir (files w') p = isdir (files w) p"
  using resize_image_try_cases [OF assms(1)] by (auto dest: save_isdir)

lemma resize_image_try_stdout:
  assumes "resize_image_try inp out ts q cm w = (r, w')"
  shows "stdout w' = (case r of None \<Rightarrow> stdout w @ [Resized inp (fst ts) (snd ts) out]
                      | Some e \<Rightarrow> stdout w)"
  using resize_image_try_cases [OF assms(1)] by auto

lemma resize_image_try_saved:
  assumes "resize_image_try inp out ts q cm w = (None, w')"
  shows "\<exists>img0 final.
           image_open (refusals w) (files w) inp = Inr img0
           \<and> final_img (refusals w) img0 ts cm = Inr final
           \<and> fs_lookup (files w') out = Some (File (ImageFile (Encoded (save_format out) final)))"
proof -
  from resize_image_try_cases [OF assms] obtain img0 final fs' where
    "image_open (refusals w) (files w) inp = Inr img0"
    "final_img (refusals w) img0 ts cm = Inr final"
    "save (refusals w) out (save_format out) final (files w) = (None, fs')" "files w' = fs'"
    by auto
  with save_written [of "refusals w" out "save_format out" final "files w" fs'] show ?thesis by auto
qed

text \<open>What \<open>resize_image\<close> returns, by the outcome of the body of the \<open>try\<close>.\<close>

lemma resize_image_unfold:
  assumes "resize_image_try inp out ts q cm w = (r, w1)"
  shows "resize_image inp out ts q cm w
         = (case r of None \<Rightarrow> (None, w1) | Some e \<Rightarrow> emit (ErrorProcessing inp e) w1)"
  using assms by (simp add: resize_image_def)

lemma resize_image_refusals [simp]:
  "refusals (snd (resize_image inp out ts q cm w)) = refusals w"
proof (cases "resize_image_try inp out ts q cm w")
  case (Pair r w1)
  from resize_image_try_refusals [OF Pair] show ?thesis
    unfolding resize_image_unfold [OF Pair] by (cases r) simp_all
qed

lemma resize_image_frame:
  assumes "p \<noteq> out"
  shows "fs_lookup (files (snd (resize_image inp out ts q cm w))) p = fs_lookup (files w) p"
proof (cases "resize_image_try inp out ts q cm w")
  case (Pair r w1)
  from resize_image_try_frame [OF Pair assms] show ?thesis
    unfolding resize_image_unfold [OF Pair] by (cases r) simp_all
qed

lemma resize_image_isdir:
  "isdir (files (snd (resize_image inp out ts q cm w))) p = isdir (files w) p"
proof (cases "resize_image_try inp out ts q cm w")
  case (Pair r w1)
  from resize_image_try_isdir [OF Pair] show ?thesis
    unfolding resize_image_unfold [OF Pair] by (cases r) simp_all
qed

lemma resize_image_stdout_mono:
  "set (stdout w) \<subseteq> set (stdout (snd (resize_image inp out ts q cm w)))"
proof (cases "resize_image_try inp out ts q cm w")
  case (Pair r w1)
  from resize_image_try_stdout [OF Pair] have "set (stdout w) \<subseteq> set (stdout w1)"
    by (cases r) auto
  moreover have "set (stdout w1) \<subseteq> set (stdout (snd (resize_image inp out ts q cm w)))"
    unfolding resize_image_unfold [OF Pair] using emit_stdout_mono by (cases r) simp_all
  ultimately show ?thesis by blast
qed

lemma resize_image_fst:
  "fst (resize_image inp out ts q cm w)
   = (case fst (resize_image_try inp out ts q cm w) of
        None \<Rightarrow> None
      | Some e \<Rightarrow> refusals w (Print (ErrorProcessing inp e)))"
proof (cases "resize_image_try inp out ts q cm w")
  case (Pair r w1)
  from resize_image_try_refusals [OF Pair] show ?thesis
    unfolding resize_image_unfold [OF Pair] Pair by (cases r) (simp_all add: emit_fst)
qed

lemma resize_image_returns:
  assumes "refusals w = (\<lambda>c. None)"
  shows "fst (resize_image inp out ts q cm w) = None"
  unfolding resize_image_fst using assms by (simp split: option.splits)









text \<open>
  Claim C7, as amended. An input image in mode RGBA, LA or P is converted to RGB before
  the output is saved: whenever resize_image saves its output for such an image, the
  picture that is scaled and cropped, or scaled and pasted, is the conversion of the
  input to RGB, and the picture handed to \<open>save\<close> has the mode RGB.
\<close>

theorem converts_listed_modes:
  assumes "resize_image_try input_path output_path target_size quality crop_mode w = (None, w')"
    and "image_open (refusals w) (files w) input_path = Inr img0"
    and "mode img0 = ''RGBA'' \<or> mode img0 = ''LA'' \<or> mode img0 = ''P''"
  shows "\<exists>final.
           to_rgb_if_necessary (refusals w) img0 = Inr (Converted ''RGB'' img0)
           \<and> (if crop_mode then crop_fill (refusals w) (Converted ''RGB'' img0) target_size
               else pad_fit (refusals w) (Converted ''RGB'' img0) target_size) = Inr final
           \<and> mode final = ''RGB''
           \<and> fs_lookup (files w') output_path
               = Some (File (ImageFile (Encoded (save_format output_path) final)))"
proof -
  obtain tw th where ts: "target_size = (tw, th)" by (cases target_size)
  from resize_image_try_saved [OF assms(1)] assms(2) obtain final where
    fi: "final_img (refusals w) img0 target_size crop_mode = Inr final"
    and lk: "fs_lookup (files w') output_path
               = Some (File (ImageFile (Encoded (save_format output_path) final)))"
    by auto
  from fi obtain img where
    cv: "to_rgb_if_necessary (refusals w) img0 = Inr img"
    and f: "(if crop_mode then crop_fill (refusals w) img target_size
             else pad_fit (refusals w) img target_size) = Inr final"
    by (auto simp: final_img_def split: sum.splits)
  from cv assms(3) have "convert (refusals w) ''RGB'' img0 = Inr img"
    by (auto simp: to_rgb_if_necessary_def)
  from convert_result [OF this] have img: "img = Converted ''RGB'' img0" .
  have "mode final = ''RGB''"
  proof (cases crop_mode)
    case True
    with f ts crop_fill_result [of "refusals w" img tw th final] img show ?thesis by auto
  next
    case False
    with f ts pad_fit_result [of "refusals w" img tw th final] show ?thesis by auto
  qed
  with cv f lk show ?thesis unfolding img by blast
qed

lemma ex_try_tall_fst:
  "fst (resize_image_try [''p'', ''tall.PNG''] [''p'', ''preview'', ''tall_preview.PNG''] (800, 600) 85 True
          prepared_world) = None"
  by code_simp

lemma ex_open_tall:
  "image_open (refusals prepared_world) (files prepared_world) [''p'', ''tall.PNG'']
   = Inr (Pixels 300 900 ''RGBA'')"
  by code_simp

lemma ex_fill_tall:
  "crop_fill (refusals prepared_world) (Converted ''RGB'' (Pixels 300 900 ''RGBA'')) (800, 600)
   = Inr (Cropped (0, 900, 800, 1500) (Scaled (800, 2400) (Converted ''RGB'' (Pixels 300 900 ''RGBA''))))"
  by code_simp

lemma ex_fmt_tall: "save_format [''p'', ''preview'', ''tall_preview.PNG''] = PNG"
  by code_simp

theorem converts_listed_modes_witness:
  "resize_image_try [''p'', ''tall.PNG''] [''p'', ''preview'', ''tall_preview.PNG''] (800, 600) 85 True
     prepared_world
     = (None, snd (resize_image_try [''p'', ''tall.PNG''] [''p'', ''preview'', ''tall_preview.PNG'']
                     (800, 600) 85 True prepared_world))
   \<and> image_open (refusals prepared_world) (files prepared_world) [''p'', ''tall.PNG'']
       = Inr (Pixels 300 900 ''RGBA'')
   \<and> mode (Pixels 300 900 ''RGBA'') = ''RGBA''
   \<and> fs_lookup (files (snd (resize_image_try [''p'', ''tall.PNG''] [''p'', ''preview'', ''tall_preview.PNG'']
                                (800, 600) 85 True prepared_world)))
         [''p'', ''preview'', ''tall_preview.PNG'']
       = Some (File (ImageFile (Encoded PNG
           (Cropped (0, 900, 800, 1500)
              (Scaled (800, 2400) (Converted ''RGB'' (Pixels 300 900 ''RGBA'')))))))
   \<and> mode (Cropped (0, 900, 800, 1500) (Scaled (800, 2400) (Converted ''RGB'' (Pixels 300 900 ''RGBA''))))
       = ''RGB''"
proof -
  let ?w' = "snd (resize_image_try [''p'', ''tall.PNG''] [''p'', ''preview'', ''tall_preview.PNG'']
                    (800, 600) 85 True prepared_world)"
  have h: "resize_image_try [''p'', ''tall.PNG''] [''p'', ''preview'', ''tall_preview.PNG''] (800, 600) 85
             True prepared_world = (None, ?w')"
    using ex_try_tall_fst by (simp add: prod_eq_iff)
  have m: "mode (Pixels 300 900 ''RGBA'') = ''RGBA'' \<or> mode (Pixels 300 900 ''RGBA'') = ''LA''
           \<or> mode (Pixels 300 900 ''RGBA'') = ''P''" by simp
  from converts_listed_modes [OF h ex_open_tall m]
  have "fs_lookup (files ?w') [''p'', ''preview'', ''tall_preview.PNG'']
       = Some (File (ImageFile (Encoded PNG
           (Cropped (0, 900, 800, 1500)
              (Scaled (800, 2400) (Converted ''RGB'' (Pixels 300 900 ''RGBA'')))))))"
    unfolding ex_fmt_tall by (auto simp: ex_fill_tall)
  with h ex_open_tall show ?thesis by simp
qed

text \<open>
  The claim as first stated, that every image whose mode is not RGB is converted, fails
  on a greyscale picture: it is scaled and cropped as it is, and what is saved has the
  mode L.
\<close>

theorem grey_image_saved_unconverted:
  "image_open (refusals prepared_world) (files prepared_world) [''p'', ''grey.jpg'']
     = Inr (Pixels 640 480 ''L'')
   \<and> mode (Pixels 640 480 ''L'') \<noteq> ''RGB''
   \<and> fst (resize_image [''p'', ''grey.jpg''] [''p'', ''preview'', ''grey_preview.jpg''] (800, 600) 85 True
            prepared_world) = None
   \<and> fs_lookup (files (snd (resize_image [''p'', ''grey.jpg''] [''p'', ''preview'', ''grey_preview.jpg'']
                                 (800, 600) 85 True prepared_world)))
         [''p'', ''preview'', ''grey_preview.jpg'']
       = Some (File (ImageFile (Encoded JPEG
           (Cropped (0, 0, 800, 600) (Scaled (800, 600) (Pixels 640 480 ''L''))))))
   \<and> mode (Encoded JPEG (Cropped (0, 0, 800, 600) (Scaled (800, 600) (Pixels 640 480 ''L'')))) = ''L''"
  by code_simp

text \<open>
  Claim C9, as amended. Whatever the body of the \<open>try\<close> raises is caught, for every
  input: a missing input, bytes that are no image, a failing save, or any other. The
  handler then prints the error line, and when the console accepts that line the
  function returns normally, with the error line as the one line added to the output.
  The only exception that reaches the caller is one that the \<open>print\<close> of the error line
  raises itself. A run that raises nothing in the body returns normally. No path but the
  output path is changed.
\<close>

theorem resize_image_raises_only_from_handler:
  "(fst (resize_image_try input_path output_path target_size quality crop_mode w) = None
      \<longrightarrow> resize_image input_path output_path target_size quality crop_mode w
          = resize_image_try input_path output_path target_size quality crop_mode w)
   \<and> (\<forall>e. fst (resize_image_try input_path output_path target_size quality crop_mode w) = Some e
        \<longrightarrow> fst (resize_image input_path output_path target_size quality crop_mode w)
              = refusals w (Print (ErrorProcessing input_path e))
            \<and> (refusals w (Print (ErrorProcessing input_path e)) = None
                \<longrightarrow> stdout (snd (resize_image input_path output_path target_size quality crop_mode w))
                      = stdout w @ [ErrorProcessing input_path e]))
   \<and> (\<forall>p. p \<noteq> output_path
        \<longrightarrow> fs_lookup (files (snd (resize_image input_path output_path target_size quality crop_mode w))) p
            = fs_lookup (files w) p)"
proof (cases "resize_image_try input_path output_path target_size quality crop_mode w")
  case (Pair r w1)
  note so = resize_image_try_stdout [OF Pair] and rf = resize_image_try_refusals [OF Pair]
  have fr: "\<forall>p. p \<noteq> output_path
        \<longrightarrow> fs_lookup (files (snd (resize_image input_path output_path target_size quality crop_mode w))) p
            = fs_lookup (files w) p"
    by (simp add: resize_image_frame)
  show ?thesis
  proof (cases r)
    case None
    with Pair fr show ?thesis by (simp add: resize_image_def)
  next
    case (Some e)
    have "fst (emit (ErrorProcessing input_path e) w1) = refusals w (Print (ErrorProcessing input_path e))"
      by (simp add: emit_fst rf)
    moreover have "refusals w (Print (ErrorProcessing input_path e)) = None
        \<Longrightarrow> stdout (snd (emit (ErrorProcessing input_path e) w1)) = stdout w @ [ErrorProcessing input_path e]"
      using so Some rf by (simp add: emit_def)
    ultimately show ?thesis using Pair Some fr by (simp add: resize_image_def)
  qed
qed

lemma ex_corrupt_fst:
  "fst (resize_image_try [''p'', ''bad.png''] [''p'', ''preview'', ''bad_preview.png''] (800, 600) 85 True
          prepared_world) = Some UnidentifiedImageError"
  by code_simp

lemma ex_accepts: "refusals prepared_world c = None"
  by (simp add: prepared_world_def)

theorem resize_image_raises_only_from_handler_witness:
  "fst (resize_image_try [''p'', ''bad.png''] [''p'', ''preview'', ''bad_preview.png''] (800, 600) 85 True
          prepared_world) = Some UnidentifiedImageError
   \<and> refusals prepared_world (Print (ErrorProcessing [''p'', ''bad.png''] UnidentifiedImageError)) = None
   \<and> fst (resize_image [''p'', ''bad.png''] [''p'', ''preview'', ''bad_preview.png''] (800, 600) 85 True
            prepared_world) = None
   \<and> stdout (snd (resize_image [''p'', ''bad.png''] [''p'', ''preview'', ''bad_preview.png''] (800, 600) 85
                     True prepared_world))
       = stdout prepared_world @ [ErrorProcessing [''p'', ''bad.png''] UnidentifiedImageError]
   \<and> fst (resize_image_try [''p'', ''nothing.jpg''] [''p'', ''preview'', ''nothing_preview.jpg''] (800, 600)
            85 True prepared_world) = Some FileNotFoundError
   \<and> fst (resize_image [''p'', ''nothing.jpg''] [''p'', ''preview'', ''nothing_preview.jpg''] (800, 600) 85
            True prepared_world) = None
   \<and> fst (resize_image_try [''p'', ''cut.jpg''] [''p'', ''preview'', ''cut_preview.jpg''] (800, 600)
            85 True prepared_world) = Some OSError
   \<and> fst (resize_image [''p'', ''cut.jpg''] [''p'', ''preview'', ''cut_preview.jpg''] (800, 600) 85
            True prepared_world) = None
   \<and> fst (resize_image_try [''p'', ''a.jpg''] [''p'', ''preview''] (800, 600) 85 True prepared_world)
       = Some IsADirectoryError
   \<and> fst (resize_image [''p'', ''a.jpg''] [''p'', ''preview''] (800, 600) 85 True prepared_world) = None"
proof -
  note t = resize_image_raises_only_from_handler [where w = prepared_world and quality = 85
             and crop_mode = True and target_size = "(800, 600)"]
  have a: "fst (resize_image_try [''p'', ''nothing.jpg''] [''p'', ''preview'', ''nothing_preview.jpg'']
             (800, 600) 85 True prepared_world) = Some FileNotFoundError" by code_simp
  have b: "fst (resize_image_try [''p'', ''cut.jpg''] [''p'', ''preview'', ''cut_preview.jpg''] (800, 600)
            85 True prepared_world) = Some OSError" by code_simp
  have c: "fst (resize_image_try [''p'', ''a.jpg''] [''p'', ''preview''] (800, 600) 85 True prepared_world)
       = Some IsADirectoryError" by code_simp
  from t [of "[''p'', ''bad.png'']" "[''p'', ''preview'', ''bad_preview.png'']"] ex_corrupt_fst
  have 1: "fst (resize_image [''p'', ''bad.png''] [''p'', ''preview'', ''bad_preview.png''] (800, 600) 85 True
            prepared_world) = None"
    "stdout (snd (resize_image [''p'', ''bad.png''] [''p'', ''preview'', ''bad_preview.png''] (800, 600) 85
                     True prepared_world))
       = stdout prepared_world @ [ErrorProcessing [''p'', ''bad.png''] UnidentifiedImageError]"
    by (simp_all add: ex_accepts)
  from t [of "[''p'', ''nothing.jpg'']" "[''p'', ''preview'', ''nothing_preview.jpg'']"] a
  have 2: "fst (resize_image [''p'', ''nothing.jpg''] [''p'', ''preview'', ''nothing_preview.jpg''] (800, 600) 85
            True prepared_world) = None"
    by (simp add: ex_accepts)
  from t [of "[''p'', ''cut.jpg'']" "[''p'', ''preview'', ''cut_preview.jpg'']"] b
  have 3: "fst (resize_image [''p'', ''cut.jpg''] [''p'', ''preview'', ''cut_preview.jpg''] (800, 600) 85
            True prepared_world) = None"
    by (simp add: ex_accepts)
  from t [of "[''p'', ''a.jpg'']" "[''p'', ''preview'']"] c
  have 4: "fst (resize_image [''p'', ''a.jpg''] [''p'', ''preview''] (800, 600) 85 True prepared_world) = None"
    by (simp add: ex_accepts)
  from ex_corrupt_fst a b c 1 2 3 4 ex_accepts show ?thesis by simp
qed

text \<open>
  The claim as first stated, that no exception ever reaches the caller, fails on a
  console that cannot encode the cross at the head of the error line: the body raises
  for the missing input, the handler catches that, and the \<open>print\<close> of the handler
  raises in its turn. On such a console the same happens for an input that is
  processed and saved without fault, since the line of success is refused as well.
\<close>

theorem error_line_refused_reaches_caller:
  "fst (resize_image_try [''p'', ''nothing.jpg''] [''p'', ''preview'', ''nothing_preview.jpg''] (800, 600) 85
          True (prepared_world\<lparr>refusals := narrow_console\<rparr>)) = Some FileNotFoundError
   \<and> fst (resize_image [''p'', ''nothing.jpg''] [''p'', ''preview'', ''nothing_preview.jpg''] (800, 600) 85
            True (prepared_world\<lparr>refusals := narrow_console\<rparr>)) = Some UnicodeEncodeError
   \<and> fst (resize_image [''p'', ''a.jpg''] [''p'', ''preview'', ''a_preview.jpg''] (800, 600) 85
            True (prepared_world\<lparr>refusals := narrow_console\<rparr>)) = Some UnicodeEncodeError"
  by code_simp

section \<open>File names and their extensions\<close>

lemma takeWhile_rev_last_dot:
  assumes "x \<notin> set s"
  shows "rev (takeWhile (\<lambda>c. c \<noteq> x) (rev (r @ x # s))) = s"
proof -
  have "takeWhile (\<lambda>c. c \<noteq> x) (rev s @ x # rev r) = rev s"
    using assms by (auto simp: takeWhile_tail)
  then show ?thesis by simp
qed

lemma splitext_nodot: "CHR ''.'' \<notin> set p \<Longrightarrow> splitext p = (p, [])"
  by (simp add: splitext_def Let_def)

lemma splitext_split:
  assumes "p = r @ CHR ''.'' # s" "CHR ''.'' \<notin> set s"
  shows "splitext p = (if \<exists>c \<in> set r. c \<noteq> CHR ''.'' then (r, CHR ''.'' # s) else (p, []))"
proof -
  have a: "rev (takeWhile (\<lambda>c. c \<noteq> CHR ''.'') (rev p)) = s"
    unfolding assms(1) using assms(2) by (rule takeWhile_rev_last_dot)
  have i: "length p - length s - 1 = length r" using assms(1) by simp
  show ?thesis unfolding splitext_def a Let_def i using assms(1) by simp
qed

lemma first_split_unique:
  assumes "a @ x # b = a' @ x # b'" "x \<notin> set a" "x \<notin> set a'"
  shows "a = a' \<and> b = b'"
  using assms
proof (induction a arbitrary: a')
  case Nil
  then show ?case by (cases a') auto
next
  case (Cons y a)
  then show ?case by (cases a') auto
qed

lemma last_split_unique:
  assumes "r @ x # s = r' @ x # s'" "x \<notin> set s" "x \<notin> set s'"
  shows "r = r' \<and> s = s'"
proof -
  from assms(1) have "rev (r @ x # s) = rev (r' @ x # s')" by simp
  then have "rev s @ x # rev r = rev s' @ x # rev r'" by simp
  moreover have "x \<notin> set (rev s)" "x \<notin> set (rev s')" using assms(2,3) by simp_all
  ultimately have "rev s = rev s' \<and> rev r = rev r'"
    by (rule first_split_unique)
  then show ?thesis by simp
qed


lemma splitext_kinds:
  "(splitext n = (n, []) \<and> (CHR ''.'' \<notin> set n \<or> (\<exists>r s. n = r @ CHR ''.'' # s \<and> CHR ''.'' \<notin> set s \<and> (\<forall>c \<in> set r. c = CHR ''.''))))
   \<or> (\<exists>r s. n = r @ CHR ''.'' # s \<and> CHR ''.'' \<notin> set s \<and> (\<exists>c \<in> set r. c \<noteq> CHR ''.'') \<and> splitext n = (r, CHR ''.'' # s))"
proof (cases "CHR ''.'' \<in> set n")
  case False
  then show ?thesis by (simp add: splitext_nodot)
next
  case True
  then obtain r s where n: "n = r @ CHR ''.'' # s" "CHR ''.'' \<notin> set s"
    using split_list_last [OF True] by blast
  show ?thesis
  proof (cases "\<exists>c \<in> set r. c \<noteq> CHR ''.''")
    case True
    with splitext_split [OF n] have "splitext n = (r, CHR ''.'' # s)" by simp
    with n True show ?thesis by blast
  next
    case False
    with splitext_split [OF n] have "splitext n = (n, [])" by simp
    moreover from False have "\<forall>c \<in> set r. c = CHR ''.''" by blast
    ultimately show ?thesis using n by blast
  qed
qed

lemma derived_name_mixed:
  assumes S: "CHR ''.'' \<notin> set S" "S \<noteq> []"
    and x: "CHR ''.'' \<notin> set s"
    and e: "CHR ''.'' \<notin> set b \<or> (\<exists>r s. b = r @ CHR ''.'' # s \<and> CHR ''.'' \<notin> set s \<and> (\<forall>c \<in> set r. c = CHR ''.''))"
    and eq': "(r @ S) @ CHR ''.'' # s = b @ S"
  shows False
  using e
proof
  assume "CHR ''.'' \<notin> set b"
  with S have n: "CHR ''.'' \<notin> set (b @ S)" by simp
  have "CHR ''.'' \<in> set ((r @ S) @ CHR ''.'' # s)" by simp
  then have "CHR ''.'' \<in> set (b @ S)" by (simp only: eq')
  with n show False by (rule notE)
next
  assume "\<exists>r s. b = r @ CHR ''.'' # s \<and> CHR ''.'' \<notin> set s \<and> (\<forall>c \<in> set r. c = CHR ''.'')"
  then obtain r' s' where b: "b = r' @ CHR ''.'' # s'" "CHR ''.'' \<notin> set s'"
    "\<forall>c \<in> set r'. c = CHR ''.''" by blast
  have "(r' @ CHR ''.'' # s') @ S = r' @ CHR ''.'' # (s' @ S)" by simp
  with eq' have e2: "(r @ S) @ CHR ''.'' # s = r' @ CHR ''.'' # (s' @ S)"
    by (simp only: b(1))
  have n2: "CHR ''.'' \<notin> set (s' @ S)" using b(2) S(1) by simp
  have "r @ S = r' \<and> s = s' @ S" by (rule last_split_unique [OF e2 x n2])
  then have rs: "r @ S = r'" ..
  from S(2) have hd: "hd S \<in> set S" by simp
  then have "hd S \<in> set (r @ S)" by simp
  then have "hd S \<in> set r'" by (simp only: rs)
  with b(3) have "hd S = CHR ''.''" by (rule bspec)
  with hd have "CHR ''.'' \<in> set S" by (simp only:)
  with S(1) show False by (rule notE)
qed

lemma splitext_ext_empty_iff: "(snd (splitext n) = []) = (splitext n = (n, []))"
proof
  assume e: "snd (splitext n) = []"
  from splitext_kinds [of n] show "splitext n = (n, [])"
  proof
    assume "splitext n = (n, []) \<and> (CHR ''.'' \<notin> set n \<or> (\<exists>r s. n = r @ CHR ''.'' # s \<and> CHR ''.'' \<notin> set s \<and> (\<forall>c \<in> set r. c = CHR ''.'')))"
    then show ?thesis ..
  next
    assume "\<exists>r s. n = r @ CHR ''.'' # s \<and> CHR ''.'' \<notin> set s \<and> (\<exists>c \<in> set r. c \<noteq> CHR ''.'') \<and> splitext n = (r, CHR ''.'' # s)"
    then obtain r s where "splitext n = (r, CHR ''.'' # s)" by blast
    then have "snd (splitext n) = CHR ''.'' # s" by (simp only: snd_conv)
    with e show ?thesis by (simp only: list.distinct)
  qed
next
  assume "splitext n = (n, [])"
  then show "snd (splitext n) = []" by (simp only: snd_conv)
qed

lemma splitext_with_ext:
  assumes "snd (splitext n) \<noteq> []"
  obtains r s where "n = r @ CHR ''.'' # s" "CHR ''.'' \<notin> set s" "splitext n = (r, CHR ''.'' # s)"
proof -
  from assms have ne: "splitext n \<noteq> (n, [])" by (simp only: splitext_ext_empty_iff not_False_eq_True)
  from splitext_kinds [of n]
  have "\<exists>r s. n = r @ CHR ''.'' # s \<and> CHR ''.'' \<notin> set s \<and> (\<exists>c \<in> set r. c \<noteq> CHR ''.'') \<and> splitext n = (r, CHR ''.'' # s)"
  proof
    assume "splitext n = (n, []) \<and> (CHR ''.'' \<notin> set n \<or> (\<exists>r s. n = r @ CHR ''.'' # s \<and> CHR ''.'' \<notin> set s \<and> (\<forall>c \<in> set r. c = CHR ''.'')))"
    then have "splitext n = (n, [])" ..
    with ne show ?thesis by (rule notE)
  qed
  then obtain r s where "n = r @ CHR ''.'' # s" "CHR ''.'' \<notin> set s" "splitext n = (r, CHR ''.'' # s)"
    by (elim exE conjE)
  then show thesis by (rule that)
qed

lemma splitext_without_ext:
  assumes "snd (splitext n) = []"
  shows "splitext n = (n, []) \<and> (CHR ''.'' \<notin> set n \<or> (\<exists>r s. n = r @ CHR ''.'' # s \<and> CHR ''.'' \<notin> set s \<and> (\<forall>c \<in> set r. c = CHR ''.'')))"
proof -
  from assms have e: "splitext n = (n, [])" by (simp only: splitext_ext_empty_iff)
  from splitext_kinds [of n] show ?thesis
  proof
    assume "\<exists>r s. n = r @ CHR ''.'' # s \<and> CHR ''.'' \<notin> set s \<and> (\<exists>c \<in> set r. c \<noteq> CHR ''.'') \<and> splitext n = (r, CHR ''.'' # s)"
    then obtain r s where "splitext n = (r, CHR ''.'' # s)" by (elim exE conjE)
    with e have "(n, []) = (r, CHR ''.'' # s)" by (simp only:)
    then show ?thesis by (simp only: prod.inject list.distinct conj_absorb simp_thms)
  qed
qed

lemma derived_name_inj:
  assumes S: "CHR ''.'' \<notin> set S" "S \<noteq> []"
    and eq: "fst (splitext p) @ S @ snd (splitext p) = fst (splitext q) @ S @ snd (splitext q)"
  shows "p = q"
proof (cases "snd (splitext p) = []")
  case pe: True
  show ?thesis
  proof (cases "snd (splitext q) = []")
    case True
    from eq splitext_without_ext [OF pe, THEN conjunct1] splitext_without_ext [OF True, THEN conjunct1]
    show ?thesis by simp
  next
    case False
    then obtain r s where q: "q = r @ CHR ''.'' # s" "CHR ''.'' \<notin> set s"
      "splitext q = (r, CHR ''.'' # s)" by (rule splitext_with_ext)
    from eq q(3) splitext_without_ext [OF pe, THEN conjunct1] have "(r @ S) @ CHR ''.'' # s = p @ S" by simp
    from derived_name_mixed [OF S q(2) splitext_without_ext [OF pe, THEN conjunct2] this] show ?thesis ..
  qed
next
  case False
  then obtain r s where p: "p = r @ CHR ''.'' # s" "CHR ''.'' \<notin> set s"
    "splitext p = (r, CHR ''.'' # s)" by (rule splitext_with_ext)
  show ?thesis
  proof (cases "snd (splitext q) = []")
    case True
    from eq p(3) splitext_without_ext [OF True, THEN conjunct1] have "(r @ S) @ CHR ''.'' # s = q @ S" by simp
    from derived_name_mixed [OF S p(2) splitext_without_ext [OF True, THEN conjunct2] this] show ?thesis ..
  next
    case False
    then obtain r' s' where q: "q = r' @ CHR ''.'' # s'" "CHR ''.'' \<notin> set s'"
      "splitext q = (r', CHR ''.'' # s')" by (rule splitext_with_ext)
    from eq p(3) q(3) have e2: "(r @ S) @ CHR ''.'' # s = (r' @ S) @ CHR ''.'' # s'" by simp
    from last_split_unique [OF e2 p(2) q(2)] p(1) q(1) show ?thesis by simp
  qed
qed


end
